theory Spec2Isabelle
  imports Main "HOL-Library.List_Lexorder" "HOL-Library.Char_ord"
begin

unbundle bit_operations_syntax

section \<open>Python strings and paths used by \<open>mypyc/build.py\<close>\<close>

text \<open>
  A Python \<open>str\<close> is modelled by its UTF-8 bytes, a \<^typ>\<open>string\<close>. Concatenation,
  \<open>join\<close>, \<open>split\<close> and \<open>replace\<close> on an ASCII separator commute with the encoding, so
  \<open>','.join(modules).encode()\<close> is the join of the encoded names, and the byte order of
  two encoded strings is their code point order.
\<close>

text \<open>\<open>sep.join(xs)\<close>\<close>

fun join :: "string \<Rightarrow> string list \<Rightarrow> string" where
  "join sep [] = []"
| "join sep [x] = x"
| "join sep (x # y # ys) = x @ sep @ join sep (y # ys)"

text \<open>\<open>s.split(c)\<close> for a separator of one character: never the empty list.\<close>

fun split_go :: "char \<Rightarrow> string \<Rightarrow> string \<Rightarrow> string list" where
  "split_go c acc [] = [rev acc]"
| "split_go c acc (x # xs) =
     (if x = c then rev acc # split_go c [] xs else split_go c (x # acc) xs)"

definition split :: "char \<Rightarrow> string \<Rightarrow> string list" where
  "split c s = split_go c [] s"

text \<open>\<open>s.replace(c, new)\<close> for a pattern of one character.\<close>

definition replace :: "char \<Rightarrow> string \<Rightarrow> string \<Rightarrow> string" where
  "replace c new s = concat (map (\<lambda>x. if x = c then new else [x]) s)"

text \<open>\<open>sub in s\<close> for strings.\<close>

fun contains :: "string \<Rightarrow> string \<Rightarrow> bool" where
  "contains sub [] = (sub = [])"
| "contains sub (x # xs) = (take (length sub) (x # xs) = sub \<or> contains sub xs)"

text \<open>
  \<open>os.path\<close> is \<open>posixpath\<close>. \<open>posixpath.join(a, *p)\<close>: a component that starts with
  the separator replaces what came before, and a separator is inserted between two
  components unless the left one is empty or already ends with one.
\<close>

fun os_path_join :: "string \<Rightarrow> string list \<Rightarrow> string" where
  "os_path_join path [] = path"
| "os_path_join path (b # bs) =
     os_path_join
       (if take 1 b = ''/'' then b
        else if path = [] \<or> last path = CHR ''/'' then path @ b
        else path @ ''/'' @ b) bs"

text \<open>
  \<open>posixpath.split(p)\<close>: the tail is what follows the last separator; the head is what
  precedes it, with trailing separators stripped unless it consists of separators only.
\<close>

definition os_path_split :: "string \<Rightarrow> string \<times> string" where
  "os_path_split p =
     (let tail = rev (takeWhile (\<lambda>c. c \<noteq> CHR ''/'') (rev p));
          head = take (length p - length tail) p
      in (if head \<noteq> [] \<and> (\<exists>c \<in> set head. c \<noteq> CHR ''/'')
          then rev (dropWhile (\<lambda>c. c = CHR ''/'') (rev head)) else head,
          tail))"

text \<open>
  \<open>posixpath.splitext(p)\<close>: the extension starts at the last dot of the last component,
  unless only dots precede that dot in the component.
\<close>

definition os_path_splitext :: "string \<Rightarrow> string \<times> string" where
  "os_path_splitext p =
     (let base = dropWhile (\<lambda>c. c = CHR ''.'') (snd (os_path_split p));
          ext = rev (takeWhile (\<lambda>c. c \<noteq> CHR ''.'') (rev base))
      in if CHR ''.'' \<in> set base
         then (take (length p - length ext - 1) p, CHR ''.'' # ext)
         else (p, []))"

section \<open>\<open>hashlib.sha1\<close>\<close>

text \<open>
  SHA-1 as \<open>hashlib\<close> computes it (FIPS 180-4), on 32-bit words held in \<^typ>\<open>nat\<close> with
  the reduction modulo \<open>2 ^ 32\<close> written out.
\<close>

type_synonym w32 = nat

definition add32 :: "w32 \<Rightarrow> w32 \<Rightarrow> w32" where
  "add32 x y = (x + y) mod 4294967296"

definition not32 :: "w32 \<Rightarrow> w32" where
  "not32 x = 4294967295 - x"

definition rotl :: "nat \<Rightarrow> w32 \<Rightarrow> w32" where
  "rotl n x = (x * 2 ^ n) mod 4294967296 + x div 2 ^ (32 - n)"

definition sha1_f :: "nat \<Rightarrow> w32 \<Rightarrow> w32 \<Rightarrow> w32 \<Rightarrow> w32" where
  "sha1_f t b c d =
     (if t < 20 then (b AND c) OR (not32 b AND d)
      else if t < 40 then b XOR c XOR d
      else if t < 60 then (b AND c) OR (b AND d) OR (c AND d)
      else b XOR c XOR d)"

definition sha1_k :: "nat \<Rightarrow> w32" where
  "sha1_k t =
     (if t < 20 then 0x5A827999
      else if t < 40 then 0x6ED9EBA1
      else if t < 60 then 0x8F1BBCDC
      else 0xCA62C1D6)"

text \<open>The big-endian words of a block.\<close>

fun be_words :: "string \<Rightarrow> w32 list" where
  "be_words (a # b # c # d # rest) =
     (16777216 * of_char a + 65536 * of_char b + 256 * of_char c + of_char d) # be_words rest"
| "be_words _ = []"

text \<open>
  The message schedule, kept newest word first: when word \<open>t\<close> is to be added, the head
  of the list is word \<open>t - 1\<close>, so the words \<open>t - 3\<close>, \<open>t - 8\<close>, \<open>t - 14\<close> and \<open>t - 16\<close>
  are at the positions 2, 7, 13 and 15.
\<close>

fun expand :: "nat \<Rightarrow> w32 list \<Rightarrow> w32 list" where
  "expand 0 ws = ws"
| "expand (Suc n) ws =
     expand n (rotl 1 (ws ! 2 XOR ws ! 7 XOR ws ! 13 XOR ws ! 15) # ws)"

type_synonym sha1_state = "w32 \<times> w32 \<times> w32 \<times> w32 \<times> w32"

fun rounds :: "nat \<Rightarrow> w32 list \<Rightarrow> sha1_state \<Rightarrow> sha1_state" where
  "rounds t [] st = st"
| "rounds t (w # ws) (a, b, c, d, e) =
     rounds (t + 1) ws
       (add32 (add32 (add32 (add32 (rotl 5 a) (sha1_f t b c d)) e) (sha1_k t)) w,
        a, rotl 30 b, c, d)"

fun add_state :: "sha1_state \<Rightarrow> sha1_state \<Rightarrow> sha1_state" where
  "add_state (h0, h1, h2, h3, h4) (a, b, c, d, e) =
     (add32 h0 a, add32 h1 b, add32 h2 c, add32 h3 d, add32 h4 e)"

definition compress :: "sha1_state \<Rightarrow> string \<Rightarrow> sha1_state" where
  "compress st block = add_state st (rounds 0 (rev (expand 64 (rev (be_words block)))) st)"

definition be64 :: "nat \<Rightarrow> string" where
  "be64 n =
     [char_of (n div 72057594037927936), char_of (n div 281474976710656),
      char_of (n div 1099511627776), char_of (n div 4294967296),
      char_of (n div 16777216), char_of (n div 65536), char_of (n div 256), char_of n]"

definition pad :: "string \<Rightarrow> string" where
  "pad m =
     m @ CHR 0x80 # replicate ((119 - length m mod 64) mod 64) (CHR 0x00) @ be64 (8 * length m)"

fun blocks :: "nat \<Rightarrow> sha1_state \<Rightarrow> string \<Rightarrow> sha1_state" where
  "blocks 0 st m = st"
| "blocks (Suc n) st m = blocks n (compress st (take 64 m)) (drop 64 m)"

definition sha1 :: "string \<Rightarrow> sha1_state" where
  "sha1 m =
     blocks (length (pad m) div 64)
       (0x67452301, 0xEFCDAB89, 0x98BADCFE, 0x10325476, 0xC3D2E1F0) (pad m)"

definition hex_digit :: "nat \<Rightarrow> char" where
  "hex_digit n = ''0123456789abcdef'' ! (n mod 16)"

definition hex32 :: "w32 \<Rightarrow> string" where
  "hex32 w =
     [hex_digit (w div 268435456), hex_digit (w div 16777216), hex_digit (w div 1048576),
      hex_digit (w div 65536), hex_digit (w div 4096), hex_digit (w div 256),
      hex_digit (w div 16), hex_digit w]"

fun hexdigest :: "sha1_state \<Rightarrow> string" where
  "hexdigest (a, b, c, d, e) = hex32 a @ hex32 b @ hex32 c @ hex32 d @ hex32 e"

section \<open>The name of the shared library\<close>

text \<open>
  \<open>shared_lib_name(modules)\<close>: \<open>'mypyc_%s' % h.hexdigest()[:20]\<close> with \<open>h\<close> the SHA-1 of
  \<open>','.join(modules)\<close>.
\<close>

definition shared_lib_name :: "string list \<Rightarrow> string" where
  "shared_lib_name modules = ''mypyc_'' @ take 20 (hexdigest (sha1 (join '','' modules)))"

section \<open>Errors, the file system and list objects\<close>

text \<open>
  Every exception the code can raise is a value. \<open>sys.exit(arg)\<close> raises \<open>SystemExit\<close>;
  when nothing catches it the interpreter ends with status 0 for \<open>None\<close>, with the
  integer for an integer, and for any other argument prints it to the error stream and
  ends with status 1. Any other exception that nothing catches ends it with status 1.
\<close>

datatype exit_arg = ExitNone | ExitInt int | ExitStr string

datatype error =
    SystemExit exit_arg
  | AssertionError
  | IndexError
  | KeyError
  | ValueError
  | TypeError
  | FileExistsError
  | OSError string
  | Raised string

fun exit_status :: "error \<Rightarrow> int" where
  "exit_status (SystemExit ExitNone) = 0"
| "exit_status (SystemExit (ExitInt n)) = n"
| "exit_status (SystemExit (ExitStr s)) = 1"
| "exit_status _ = 1"

text \<open>
  The world the build runs in: the directories and the files (path to content) of the
  file system, paths being relative to the working directory, and the Python list objects
  a caller can share with the build, by address. A reference to a list is the address of
  an object that exists, a number below the length of \<open>heap\<close>; two references to the same
  list are the same address.
\<close>

record world =
  dirs :: "string set"
  files :: "string \<rightharpoonup> string"
  heap :: "string list list"

type_synonym 'a result = "(error + 'a) \<times> world"

text \<open>Sequencing: an exception skips the rest and keeps the world as it is.\<close>

fun bind_result :: "'a result \<Rightarrow> ('a \<Rightarrow> world \<Rightarrow> 'b result) \<Rightarrow> 'b result" where
  "bind_result (Inl e, w) f = (Inl e, w)"
| "bind_result (Inr x, w) f = f x w"

text \<open>The directory a path lies in exists: the working directory always does.\<close>

definition parent_exists :: "string \<Rightarrow> world \<Rightarrow> bool" where
  "parent_exists p w = (fst (os_path_split p) = [] \<or> fst (os_path_split p) \<in> dirs w)"

text \<open>\<open>os.mkdir(p)\<close>\<close>

definition os_mkdir :: "string \<Rightarrow> world \<Rightarrow> unit result" where
  "os_mkdir p w =
     (if p \<in> dirs w \<or> files w p \<noteq> None then (Inl FileExistsError, w)
      else if \<not> parent_exists p w then (Inl (OSError p), w)
      else (Inr (), w\<lparr>dirs := insert p (dirs w)\<rparr>))"

text \<open>\<open>open(p, 'w')\<close> creates the file or empties it; \<open>f.write(text)\<close> appends to it.\<close>

definition open_w :: "string \<Rightarrow> world \<Rightarrow> unit result" where
  "open_w p w =
     (if p \<in> dirs w \<or> \<not> parent_exists p w then (Inl (OSError p), w)
      else (Inr (), w\<lparr>files := (files w)(p \<mapsto> [])\<rparr>))"

definition file_write :: "string \<Rightarrow> string \<Rightarrow> world \<Rightarrow> world" where
  "file_write p text w =
     w\<lparr>files := (files w)(p \<mapsto> (case files w p of None \<Rightarrow> [] | Some old \<Rightarrow> old) @ text)\<rparr>"

text \<open>\<open>with open(p, 'w') as f: f.write(text)\<close>\<close>

definition write_text :: "string \<Rightarrow> string \<Rightarrow> world \<Rightarrow> unit result" where
  "write_text p text w = bind_result (open_w p w) (\<lambda>_ w1. (Inr (), file_write p text w1))"

text \<open>\<open>shutil.copyfile(src, dst)\<close>\<close>

definition copyfile :: "string \<Rightarrow> string \<Rightarrow> world \<Rightarrow> unit result" where
  "copyfile src dst w =
     (case files w src of
        None \<Rightarrow> (Inl (OSError src), w)
      | Some text \<Rightarrow> write_text dst text w)"

text \<open>A new empty list object, \<open>xs.append(x)\<close> and \<open>xs.extend(ys)\<close> on the object at an address.\<close>

definition new_list :: "world \<Rightarrow> nat \<times> world" where
  "new_list w = (length (heap w), w\<lparr>heap := heap w @ [[]]\<rparr>)"

definition list_append :: "nat \<Rightarrow> string \<Rightarrow> world \<Rightarrow> world" where
  "list_append a x w = w\<lparr>heap := (heap w)[a := heap w ! a @ [x]]\<rparr>"

definition list_extend :: "nat \<Rightarrow> string list \<Rightarrow> world \<Rightarrow> world" where
  "list_extend a xs w = w\<lparr>heap := (heap w)[a := heap w ! a @ xs]\<rparr>"

section \<open>The data of the build\<close>

text \<open>\<open>mypy.build.BuildSource\<close>, \<open>mypy.options.Options\<close> and \<open>mypyc.options.CompilerOptions\<close>,
  with the fields this module reads or writes.\<close>

record BuildSource =
  path :: "string option"
  module :: string

record Options =
  python_version :: "int \<times> int"
  strict_optional :: bool
  show_traceback :: bool
  export_types :: bool
  incremental :: bool
  per_module_options :: "string \<rightharpoonup> (string \<rightharpoonup> bool)"

record CompilerOptions =
  strip_asserts :: bool
  multi_file :: bool
  verbose :: bool

text \<open>
  \<open>MypycifyExtension\<close>: a distutils \<open>Extension\<close> (name, sources, include directories,
  extra compile arguments) with the two fields the class adds. The reference in
  \<open>mypyc_shared_target\<close> is held as the value of the extension referred to.
\<close>

datatype MypycifyExtension = MypycifyExtension
  (name: string)
  (sources: "string list")
  (include_dirs: "string list")
  (extra_compile_args: "string list")
  (is_mypyc_shared: bool)
  (mypyc_shared_target: "MypycifyExtension option")

text \<open>
  What the module takes from outside: the platform and the C compiler distutils found,
  \<open>glob.glob\<close>, mypy's \<open>process_options\<close>, \<open>mypyc.namegen.exported_name\<close>, the two
  entry points of \<open>mypyc.emitmodule\<close> (\<open>parse_and_typecheck\<close> returns the messages of a
  \<open>CompileError\<close> on the left), and the directory of the installed package.
\<close>

record 'r env =
  sys_platform :: string
  compiler_type :: string
  compiler_exe :: string
  glob :: "world \<Rightarrow> string \<Rightarrow> string list"
  process_options :: "world \<Rightarrow> string list \<Rightarrow> error + (BuildSource list \<times> Options)"
  exported_name :: "string \<Rightarrow> string"
  parse_and_typecheck :: "world \<Rightarrow> BuildSource list \<Rightarrow> Options \<Rightarrow> string list + 'r"
  compile_modules_to_c ::
    "'r \<Rightarrow> string list \<Rightarrow> string option \<Rightarrow> CompilerOptions \<Rightarrow> (string \<times> string) list \<times> string list"
  package_dir :: string

section \<open>Generating the shim\<close>

text \<open>
  \<open>template.format(**kw)\<close> for replacement fields that are plain names, as the two
  templates have them: \<open>{{\<close> and \<open>}}\<close> stand for one brace, \<open>{name}\<close> for the value
  of \<open>name\<close>. The second argument is the field name read so far, newest character first.
\<close>

fun prepend :: "string \<Rightarrow> error + string \<Rightarrow> error + string" where
  "prepend s (Inl e) = Inl e"
| "prepend s (Inr t) = Inr (s @ t)"

fun format_go :: "(string \<times> string) list \<Rightarrow> string option \<Rightarrow> string \<Rightarrow> error + string" where
  "format_go kw None [] = Inr []"
| "format_go kw (Some f) [] = Inl ValueError"
| "format_go kw None (c # cs) =
     (if c = CHR ''{'' then
        (case cs of
           [] \<Rightarrow> Inl ValueError
         | d # ds \<Rightarrow> if d = CHR ''{'' then prepend ''{'' (format_go kw None ds)
                     else format_go kw (Some []) cs)
      else if c = CHR ''}'' then
        (case cs of
           [] \<Rightarrow> Inl ValueError
         | d # ds \<Rightarrow> if d = CHR ''}'' then prepend ''}'' (format_go kw None ds)
                     else Inl ValueError)
      else prepend [c] (format_go kw None cs))"
| "format_go kw (Some f) (c # cs) =
     (if c = CHR ''}'' then
        (case map_of kw (rev f) of
           None \<Rightarrow> Inl KeyError
         | Some v \<Rightarrow> prepend v (format_go kw None cs))
      else format_go kw (Some (c # f)) cs)"

definition format :: "string \<Rightarrow> (string \<times> string) list \<Rightarrow> error + string" where
  "format template kw = format_go kw None template"

text \<open>A text given by its lines, each ended by a newline.\<close>

definition lines_text :: "string list \<Rightarrow> string" where
  "lines_text ls = concat (map (\<lambda>l. l @ ''\<newline>'') ls)"

definition shim_template_unix :: string where
  \<open>shim_template_unix = lines_text
    [''#include <Python.h>'',
     '''',
     ''PyObject *CPyInit_{full_modname}(void);'',
     '''',
     ''PyMODINIT_FUNC'',
     ''PyInit_{modname}(void)'',
     ''{{'',
     ''    return CPyInit_{full_modname}();'',
     ''}}'']\<close>

text \<open>
  The Windows template is a raw string literal, so the backslash that ends its first line
  is part of the text.
\<close>

definition shim_template_windows :: string where
  \<open>shim_template_windows = lines_text
    [[CHR 0x5C],
     ''#include <Python.h>'',
     ''#include <windows.h>'',
     ''#include <stdlib.h>'',
     ''#include <stdio.h>'',
     '''',
     ''EXTERN_C IMAGE_DOS_HEADER __ImageBase;'',
     '''',
     ''typedef PyObject *(__cdecl *INITPROC)();'',
     '''',
     ''PyMODINIT_FUNC'',
     ''PyInit_{modname}(void)'',
     ''{{'',
     ''    char path[MAX_PATH];'',
     ''    char drive[MAX_PATH];'',
     ''    char directory[MAX_PATH];'',
     ''    HINSTANCE hinstLib;'',
     ''    INITPROC proc;'',
     '''',
     ''    // get the file name of this dll'',
     ''    DWORD res = GetModuleFileName((HINSTANCE)&__ImageBase, path, sizeof(path));'',
     ''    if (res == 0 || res == sizeof(path)) {{'',
     ''        PyErr_SetString(PyExc_RuntimeError, "GetModuleFileName failed");'',
     ''        return NULL;'',
     ''    }}'',
     '''',
     ''    // find the directory this dll is in'',
     ''    _splitpath(path, drive, directory, NULL, NULL);'',
     ''    // and use it to construct a path to the shared library'',
     ''    snprintf(path, sizeof(path), "%s%s%s", drive, directory, MYPYC_LIBRARY);'',
     '''',
     ''    hinstLib = LoadLibrary(path);'',
     ''    if (!hinstLib) {{'',
     ''        PyErr_SetString(PyExc_RuntimeError, "LoadLibrary failed");'',
     ''        return NULL;'',
     ''    }}'',
     ''    proc = (INITPROC)GetProcAddress(hinstLib, "CPyInit_{full_modname}");'',
     ''    if (!proc) {{'',
     ''        PyErr_SetString(PyExc_RuntimeError, "GetProcAddress failed");'',
     ''        return NULL;'',
     ''    }}'',
     '''',
     ''    return proc();'',
     ''}}'',
     '''',
     ''// distutils sometimes spuriously tells cl to export CPyInit___init__,'',
     ''// so provide that so it chills out'',
     ''PyMODINIT_FUNC PyInit___init__(void) {{ return PyInit_{modname}(); }}'']\<close>

text \<open>
  \<open>generate_c_extension_shim\<close>: the file is opened for writing before the template is
  formatted, and the path of the file is returned.
\<close>

definition generate_c_extension_shim ::
  "'r env \<Rightarrow> string \<Rightarrow> string \<Rightarrow> string \<Rightarrow> world \<Rightarrow> string result" where
  "generate_c_extension_shim env full_module_name module_name dirname w =
     (let cname = replace CHR ''.'' ''___'' full_module_name @ ''.c'';
          cpath = os_path_join dirname [cname]
      in bind_result (open_w cpath w) (\<lambda>_ w1.
           let shim_template =
                 (if sys_platform env = ''win32'' then shim_template_windows
                  else shim_template_unix)
           in case format shim_template
                     [(''modname'', module_name),
                      (''full_modname'', exported_name env full_module_name)] of
                Inl e \<Rightarrow> (Inl e, w1)
              | Inr text \<Rightarrow> (Inr cpath, file_write cpath text w1)))"

section \<open>Options and C generation\<close>

text \<open>\<open>mypy_options or []\<close>: \<open>None\<close> and the empty list both give a new list object.\<close>

definition or_new_list :: "nat option \<Rightarrow> world \<Rightarrow> nat \<times> world" where
  "or_new_list mypy_options w =
     (case mypy_options of
        None \<Rightarrow> new_list w
      | Some a \<Rightarrow> if heap w ! a = [] then new_list w else (a, w))"

text \<open>\<open>options.per_module_options.setdefault(m, {})['mypyc'] = True\<close>\<close>

definition set_mypyc :: "Options \<Rightarrow> BuildSource \<Rightarrow> Options" where
  "set_mypyc options source =
     options\<lparr>per_module_options :=
       (per_module_options options)(module source \<mapsto>
          (case per_module_options options (module source) of
             None \<Rightarrow> Map.empty | Some d \<Rightarrow> d)(''mypyc'' \<mapsto> True))\<rparr>"

definition fail :: "string \<Rightarrow> error" where
  "fail message = SystemExit (ExitStr message)"

text \<open>
  The first three statements of \<open>get_mypy_config\<close>: the list object that is passed on to
  \<open>process_options\<close>, after \<open>'--'\<close> and the paths were added to it.
\<close>

definition options_list :: "nat option \<Rightarrow> string list \<Rightarrow> world \<Rightarrow> nat \<times> world" where
  "options_list mypy_options paths w =
     (case or_new_list mypy_options w of
        (a, w1) \<Rightarrow> (a, list_extend a paths (list_append a ''--'' w1)))"

definition get_mypy_config ::
  "'r env \<Rightarrow> string list \<Rightarrow> nat option \<Rightarrow> world \<Rightarrow> (BuildSource list \<times> Options) result" where
  "get_mypy_config env paths mypy_options w =
     (case options_list mypy_options paths w of (a, w2) \<Rightarrow>
        case process_options env w2 (heap w2 ! a) of
          Inl e \<Rightarrow> (Inl e, w2)
        | Inr (srcs, options) \<Rightarrow>
            if fst (python_version options) = 2
            then (Inl (fail ''Python 2 not supported''), w2)
            else if \<not> strict_optional options
            then (Inl (fail ''Disabling strict optional checking not supported''), w2)
            else (Inr (srcs,
                       foldl set_mypyc
                         (options\<lparr>show_traceback := True, export_types := True,
                                  incremental := False\<rparr>) srcs), w2))"

definition include_dir :: "'r env \<Rightarrow> string" where
  "include_dir env = os_path_join (package_dir env) [''lib-rt'']"

text \<open>
  \<open>generate_c\<close>, called with compiler options by its one caller; what it prints when
  \<open>verbose\<close> is set is not part of the world.
\<close>

definition generate_c ::
  "'r env \<Rightarrow> BuildSource list \<Rightarrow> Options \<Rightarrow> string option \<Rightarrow> CompilerOptions \<Rightarrow> world \<Rightarrow>
     error + ((string \<times> string) list \<times> string)" where
  "generate_c env srcs options lib_name compiler_options w =
     (let module_names = map module srcs
      in case parse_and_typecheck env w srcs options of
           Inl messages \<Rightarrow> Inl (fail ''Typechecking failure'')
         | Inr r \<Rightarrow>
             (case compile_modules_to_c env r module_names lib_name compiler_options of
                (ctext, ops) \<Rightarrow> Inr (ctext, join ''\<newline>'' ops)))"

section \<open>The extension modules\<close>

text \<open>The loop of \<open>build_using_shared_lib\<close> over the sources, \<open>extensions\<close> being the list so far.\<close>

fun shim_extensions ::
  "'r env \<Rightarrow> MypycifyExtension \<Rightarrow> string \<Rightarrow> string list \<Rightarrow> BuildSource list \<Rightarrow>
     MypycifyExtension list \<Rightarrow> world \<Rightarrow> MypycifyExtension list result" where
  "shim_extensions env shared_lib build_dir args [] extensions w = (Inr extensions, w)"
| "shim_extensions env shared_lib build_dir args (source # rest) extensions w =
     (let module_name = last (split CHR ''.'' (module source))
      in bind_result (generate_c_extension_shim env (module source) module_name build_dir w)
           (\<lambda>shim_file w1.
              case path source of
                None \<Rightarrow> (Inl AssertionError, w1)
              | Some p \<Rightarrow>
                  if p = [] then (Inl AssertionError, w1)
                  else
                    let full_module_name =
                          (if snd (os_path_split p) = ''__init__.py''
                           then module source @ ''.__init__'' else module source)
                    in shim_extensions env shared_lib build_dir args rest
                         (extensions @
                            [MypycifyExtension full_module_name [shim_file] [] args False
                               (Some shared_lib)]) w1))"

definition build_using_shared_lib ::
  "'r env \<Rightarrow> BuildSource list \<Rightarrow> string \<Rightarrow> string list \<Rightarrow> string \<Rightarrow> string list \<Rightarrow> world \<Rightarrow>
     MypycifyExtension list result" where
  "build_using_shared_lib env srcs lib_name cfiles build_dir args w =
     (let shared_lib =
            MypycifyExtension (''lib'' @ lib_name) cfiles [include_dir env] args True None
      in shim_extensions env shared_lib build_dir args srcs [shared_lib] w)"

definition build_single_module ::
  "'r env \<Rightarrow> BuildSource list \<Rightarrow> string list \<Rightarrow> string list \<Rightarrow> error + MypycifyExtension list" where
  "build_single_module env srcs cfiles args =
     (case srcs of
        [] \<Rightarrow> Inl IndexError
      | s # _ \<Rightarrow> Inr [MypycifyExtension (module s) cfiles [include_dir env] args False None])"

section \<open>The entry point\<close>

text \<open>\<open>len(sources) > 1 or any('.' in x.module for x in sources)\<close>\<close>

definition use_shared_lib :: "BuildSource list \<Rightarrow> bool" where
  "use_shared_lib srcs = (length srcs > 1 \<or> (\<exists>x \<in> set srcs. CHR ''.'' \<in> set (module x)))"

text \<open>The loop that writes the generated files and keeps the names of those ending in \<open>.c\<close>.\<close>

fun write_cfiles ::
  "string \<Rightarrow> (string \<times> string) list \<Rightarrow> string list \<Rightarrow> world \<Rightarrow> string list result" where
  "write_cfiles build_dir [] cfilenames w = (Inr cfilenames, w)"
| "write_cfiles build_dir ((cfile, ctext) # rest) cfilenames w =
     (let cfile' = os_path_join build_dir [cfile]
      in bind_result (write_text cfile' ctext w) (\<lambda>_ w1.
           write_cfiles build_dir rest
             (if snd (os_path_splitext cfile') = ''.c'' then cfilenames @ [cfile'] else cfilenames)
             w1))"

text \<open>The branch on \<open>skip_cgen\<close>: the names of the C files to compile.\<close>

definition c_sources ::
  "'r env \<Rightarrow> BuildSource list \<Rightarrow> Options \<Rightarrow> string option \<Rightarrow> CompilerOptions \<Rightarrow> string \<Rightarrow>
     bool \<Rightarrow> world \<Rightarrow> string list result" where
  "c_sources env srcs options lib_name compiler_options build_dir skip_cgen w =
     (if \<not> skip_cgen then
        (case generate_c env srcs options lib_name compiler_options w of
           Inl e \<Rightarrow> (Inl e, w)
         | Inr (cfiles, ops_text) \<Rightarrow>
             bind_result (write_text (os_path_join build_dir [''ops.txt'']) ops_text w)
               (\<lambda>_ w1. write_cfiles build_dir cfiles [] w1))
      else (Inr (glob env w (os_path_join build_dir [''*.c''])), w))"

text \<open>The flags for the C compiler that distutils found.\<close>

definition cflags :: "'r env \<Rightarrow> string \<Rightarrow> bool \<Rightarrow> string list" where
  "cflags env opt_level multi =
     (if compiler_type env = ''unix'' then
        [''-O'' @ opt_level, ''-Werror'', ''-Wno-unused-function'', ''-Wno-unused-label'',
         ''-Wno-unreachable-code'', ''-Wno-unused-variable'', ''-Wno-trigraphs'',
         ''-Wno-unused-command-line-argument'']
        @ (if contains ''gcc'' (compiler_exe env) then [''-Wno-unused-but-set-variable''] else [])
      else if compiler_type env = ''msvc'' then
        [''/O'' @ (if opt_level = ''3'' then ''2'' else opt_level),
         ''/wd4102'', ''/wd4101'', ''/wd4146'']
        @ (if multi then [''/GL-'', ''/wd9025''] else [])
      else [])"

text \<open>\<open>try: os.mkdir(p) except FileExistsError: pass\<close>\<close>

definition try_mkdir :: "string \<Rightarrow> world \<Rightarrow> unit result" where
  "try_mkdir p w =
     (case os_mkdir p w of
        (Inl e, w1) \<Rightarrow> if e = FileExistsError then (Inr (), w1) else (Inl e, w1)
      | (Inr u, w1) \<Rightarrow> (Inr u, w1))"

text \<open>
  \<open>mypycify\<close>. The rewriting of the distutils configuration variables at its start
  changes nothing the function reads afterwards and is left out; the compiler object is
  read through \<open>compiler_type\<close> and \<open>compiler_exe\<close> (\<open>compiler.compiler[0]\<close>).
\<close>

definition mypycify ::
  "'r env \<Rightarrow> string list \<Rightarrow> nat option \<Rightarrow> string \<Rightarrow> bool \<Rightarrow> bool \<Rightarrow> bool \<Rightarrow> bool \<Rightarrow> world \<Rightarrow>
     MypycifyExtension list result" where
  "mypycify env paths mypy_options opt_level multi skip_cgen verb strip w =
     (let compiler_options = \<lparr>strip_asserts = strip, multi_file = multi, verbose = verb\<rparr>;
          expanded_paths = concat (map (glob env w) paths);
          build_dir = ''build''
      in bind_result (try_mkdir build_dir w) (\<lambda>_ w0.
         bind_result (get_mypy_config env expanded_paths mypy_options w0) (\<lambda>(srcs, options) w1.
           let lib_name =
                 (if use_shared_lib srcs then Some (shared_lib_name (map module srcs)) else None)
           in bind_result
                (c_sources env srcs options lib_name compiler_options build_dir skip_cgen w1)
                (\<lambda>cfilenames w2.
                   let rt_file = os_path_join build_dir [''CPy.c'']
                   in bind_result
                        (copyfile (os_path_join (include_dir env) [''CPy.c'']) rt_file w2)
                        (\<lambda>_ w3.
                           if use_shared_lib srcs then
                             (case lib_name of
                                None \<Rightarrow> (Inl AssertionError, w3)
                              | Some l \<Rightarrow>
                                  if l = [] then (Inl AssertionError, w3)
                                  else build_using_shared_lib env srcs l
                                         (cfilenames @ [rt_file]) build_dir
                                         (cflags env opt_level multi) w3)
                           else
                             (build_single_module env srcs (cfilenames @ [rt_file])
                                (cflags env opt_level multi), w3))))))"

section \<open>The path from a shim to the shared library\<close>

text \<open>\<open>os.path.join(*parts)\<close>: without a first argument the call is a \<open>TypeError\<close>.\<close>

definition os_path_join_all :: "string list \<Rightarrow> error + string" where
  "os_path_join_all parts = (case parts of [] \<Rightarrow> Inl TypeError | a # p \<Rightarrow> Inr (os_path_join a p))"

text \<open>\<open>MypycifyBuildExt._get_rt_lib_path\<close>\<close>

definition get_rt_lib_path :: "MypycifyExtension \<Rightarrow> error + string" where
  "get_rt_lib_path ext =
     (let module_parts = split CHR ''.'' (name ext)
      in if length module_parts > 1
         then os_path_join_all (replicate (length module_parts - 1) ''..'')
         else Inr ''.'')"

section \<open>The module set of a build, and what a build leaves alone\<close>

text \<open>
  What \<open>process_options\<close> returns in a call of \<open>mypycify\<close>: the sources, whose modules are
  the module set of the build, and the options, before \<open>get_mypy_config\<close> checks them.
\<close>

definition parsed_config ::
  "'r env \<Rightarrow> string list \<Rightarrow> nat option \<Rightarrow> world \<Rightarrow> error + (BuildSource list \<times> Options)" where
  "parsed_config env paths mypy_options w =
     (case options_list mypy_options (concat (map (glob env w) paths))
             (snd (try_mkdir ''build'' w)) of
        (a, w2) \<Rightarrow> process_options env w2 (heap w2 ! a))"

text \<open>Two worlds with the same directories and the same list objects: only files differ.\<close>

definition only_files :: "world \<Rightarrow> world \<Rightarrow> bool" where
  "only_files w w' \<longleftrightarrow> dirs w' = dirs w \<and> heap w' = heap w"

section \<open>A sample build\<close>

text \<open>
  An environment on Linux with gcc, in which every pattern matches the path it names, the
  options are parsed to the given sources and options, type checking succeeds and one C
  file is generated; and a world that holds the runtime library and one list object.
\<close>

definition sample_options :: "int \<times> int \<Rightarrow> bool \<Rightarrow> Options" where
  "sample_options version strict =
     \<lparr>python_version = version, strict_optional = strict, show_traceback = False,
      export_types = False, incremental = True, per_module_options = Map.empty\<rparr>"

definition sample_env :: "BuildSource list \<Rightarrow> Options \<Rightarrow> unit env" where
  "sample_env srcs options =
     \<lparr>sys_platform = ''linux'', compiler_type = ''unix'', compiler_exe = ''gcc'',
      glob = (\<lambda>w p. [p]),
      process_options = (\<lambda>w args. Inr (srcs, options)),
      exported_name = replace CHR ''.'' ''___'',
      parse_and_typecheck = (\<lambda>w s opts. Inr ()),
      compile_modules_to_c = (\<lambda>r ms lib co. ([(''__native.c'', ''int x;'')], [''ops''])),
      package_dir = ''/opt/mypyc''\<rparr>"

definition sample_world :: "string list \<Rightarrow> world" where
  "sample_world opts =
     \<lparr>dirs = {}, files = [''/opt/mypyc/lib-rt/CPy.c'' \<mapsto> ''/* runtime */''], heap = [opts]\<rparr>"

definition foo_source :: BuildSource where
  "foo_source = \<lparr>path = Some ''foo.py'', module = ''foo''\<rparr>"

definition pkg_sources :: "BuildSource list" where
  "pkg_sources =
     [\<lparr>path = Some ''a/__init__.py'', module = ''a''\<rparr>,
      \<lparr>path = Some ''a/b.py'', module = ''a.b''\<rparr>]"

definition sample_flags :: "string list" where
  "sample_flags =
     [''-O3'', ''-Werror'', ''-Wno-unused-function'', ''-Wno-unused-label'',
      ''-Wno-unreachable-code'', ''-Wno-unused-variable'', ''-Wno-trigraphs'',
      ''-Wno-unused-command-line-argument'', ''-Wno-unused-but-set-variable'']"

definition sample_shared_lib :: MypycifyExtension where
  "sample_shared_lib =
     MypycifyExtension (''lib'' @ shared_lib_name [''a'', ''a.b''])
       [''build/__native.c'', ''build/CPy.c''] [''/opt/mypyc/lib-rt''] sample_flags True None"

section \<open>Evaluating SHA-1\<close>

lemma expand_numeral:
  "expand (numeral k) ws =
     expand (pred_numeral k) (rotl 1 (ws ! 2 XOR ws ! 7 XOR ws ! 13 XOR ws ! 15) # ws)"
  by (simp add: numeral_eq_Suc)

lemma blocks_numeral:
  "blocks (numeral k) st m = blocks (pred_numeral k) (compress st (take 64 m)) (drop 64 m)"
  by (simp add: numeral_eq_Suc)

lemma replicate_numeral_Cons: "replicate (numeral k) x = x # replicate (pred_numeral k) x"
  by (simp add: numeral_eq_Suc)

lemmas sha1_eval =
  sha1_def pad_def be64_def compress_def expand_numeral blocks_numeral replicate_numeral_Cons
  rotl_def add32_def not32_def sha1_f_def sha1_k_def

text \<open>The digest of \<open>abc\<close> is the one of the standard: \<open>a9993e36 4706816a ba3e2571 7850c26c 9cd0d89d\<close>.\<close>

lemma sha1_abc: "hexdigest (sha1 ''abc'') = ''a9993e364706816aba3e25717850c26c9cd0d89d''"
  by (simp add: sha1_eval hex32_def hex_digit_def)

lemma sha1_a_b: "sha1 ''a,b'' = (1569395265, 2957528530, 204275402, 1869163500, 4222311704)"
  by (simp add: sha1_eval)

lemma sha1_b_a: "sha1 ''b,a'' = (4230905575, 1011837314, 462457421, 4149763344, 418282906)"
  by (simp add: sha1_eval)

lemma sha1_pkg_mod1_mod2:
  "sha1 ''pkg.mod1,pkg.mod2'' = (3134021303, 700647781, 2348488799, 1358221040, 2217128385)"
  by (simp add: sha1_eval)

lemma sha1_pkg_mod1:
  "sha1 ''pkg.mod1'' = (990320325, 3729158703, 2381422274, 952504962, 2840416931)"
  by (simp add: sha1_eval)

lemma name_a_b: "shared_lib_name [''a'', ''b''] = ''mypyc_5d8b1241b0484dd20c2c''"
  by (simp add: shared_lib_name_def sha1_a_b hex32_def hex_digit_def)

lemma name_b_a: "shared_lib_name [''b'', ''a''] = ''mypyc_fc2e7ee73c4f69821b90''"
  by (simp add: shared_lib_name_def sha1_b_a hex32_def hex_digit_def)

lemma name_pkg_mod1_mod2:
  "shared_lib_name [''pkg.mod1'', ''pkg.mod2''] = ''mypyc_bacd5eb729c309658bfb''"
  by (simp add: shared_lib_name_def sha1_pkg_mod1_mod2 hex32_def hex_digit_def)

lemma name_pkg_mod1: "shared_lib_name [''pkg.mod1''] = ''mypyc_3b0716c5de46722f8df1''"
  by (simp add: shared_lib_name_def sha1_pkg_mod1 hex32_def hex_digit_def)

section \<open>The shape of the library name\<close>

lemma length_hex32: "length (hex32 w) = 8"
  by (simp add: hex32_def)

lemma length_hexdigest: "length (hexdigest st) = 40"
  by (cases st) (simp add: length_hex32)

lemma hex_digit_in: "hex_digit n \<in> set ''0123456789abcdef''"
proof -
  have "n mod 16 < length ''0123456789abcdef''" by simp
  then show ?thesis unfolding hex_digit_def by (rule nth_mem)
qed

lemma set_hex32_gen: "(\<And>n. hex_digit n \<in> H) \<Longrightarrow> set (hex32 w) \<subseteq> H"
  by (simp add: hex32_def)

lemma set_hexdigest: "set (hexdigest st) \<subseteq> set ''0123456789abcdef''"
proof (cases st)
  case (fields a b c d e)
  have "set (hex32 x) \<subseteq> set ''0123456789abcdef''" for x
    by (rule set_hex32_gen) (rule hex_digit_in)
  then have "set (hex32 a @ hex32 b @ hex32 c @ hex32 d @ hex32 e) \<subseteq> set ''0123456789abcdef''"
    unfolding set_append by blast
  with fields show ?thesis by (simp only: hexdigest.simps)
qed

lemma shared_lib_name_shape:
  "\<exists>h. shared_lib_name ms = ''mypyc_'' @ h \<and> length h = 20 \<and> set h \<subseteq> set ''0123456789abcdef''"
proof -
  let ?h = "take 20 (hexdigest (sha1 (join '','' ms)))"
  have "length ?h = 20" by (simp add: length_hexdigest)
  moreover have "set ?h \<subseteq> set ''0123456789abcdef''"
    using set_take_subset set_hexdigest by (rule subset_trans)
  ultimately show ?thesis unfolding shared_lib_name_def by blast
qed

lemma shared_lib_name_join:
  "join '','' ms = join '','' ms' \<Longrightarrow> shared_lib_name ms = shared_lib_name ms'"
  by (simp add: shared_lib_name_def)

text \<open>
  C9. The name of the shared library is \<open>mypyc_\<close> followed by exactly 20 characters, each
  a lowercase hexadecimal digit; it is determined by the comma-joined string of the module
  names, so the one-element list \<open>["a,b"]\<close> and the list \<open>["a", "b"]\<close> get the same name.
\<close>

theorem shared_lib_name_form:
  "(\<exists>h. shared_lib_name ms = ''mypyc_'' @ h \<and> length h = 20 \<and>
        set h \<subseteq> set ''0123456789abcdef'')
   \<and> (join '','' ms = join '','' ms' \<longrightarrow> shared_lib_name ms = shared_lib_name ms')
   \<and> shared_lib_name [''a,b''] = shared_lib_name [''a'', ''b'']"
  using shared_lib_name_shape [of ms] shared_lib_name_join [of ms ms']
    shared_lib_name_join [of "[''a,b'']" "[''a'', ''b'']"]
  by simp

theorem shared_lib_name_form_witness:
  "join '','' [''x,y'', ''z''] = join '','' [''x'', ''y,z'']
   \<and> shared_lib_name [''x,y'', ''z''] = shared_lib_name [''x'', ''y,z'']
   \<and> (\<exists>h. shared_lib_name [''x,y'', ''z''] = ''mypyc_'' @ h \<and> length h = 20 \<and>
          set h \<subseteq> set ''0123456789abcdef'')"
proof -
  have j: "join '','' [''x,y'', ''z''] = join '','' [''x'', ''y,z'']"
    by simp
  note form = shared_lib_name_form [of "[''x,y'', ''z'']" "[''x'', ''y,z'']"]
  from form j have "shared_lib_name [''x,y'', ''z''] = shared_lib_name [''x'', ''y,z'']"
    by blast
  with form j show ?thesis
    by blast
qed

text \<open>
  C3, as stated: two module lists get the same name exactly when their sorted contents are
  equal. The lists \<open>["a", "b"]\<close> and \<open>["b", "a"]\<close> have the same sorted contents and get
  different names, because the list is hashed in the order given.
\<close>

theorem shared_lib_name_sorted_counterexample:
  "\<not> (shared_lib_name [''a'', ''b''] = shared_lib_name [''b'', ''a'']
       \<longleftrightarrow> sort [''a'', ''b''] = sort [''b'', ''a''])"
  by (simp add: name_a_b name_b_a)

text \<open>
  C3, amended. The name is derived from a hash of the comma-joined module names in the
  order given: lists with the same joined string (in particular the same list, in
  repeated invocations) get the same name, the order of the modules matters, and the name
  for \<open>["pkg.mod1", "pkg.mod2"]\<close> differs from the name for \<open>["pkg.mod1"]\<close>.
\<close>

theorem shared_lib_name_by_joined_list:
  "(join '','' ms = join '','' ms' \<longrightarrow> shared_lib_name ms = shared_lib_name ms')
   \<and> shared_lib_name [''a'', ''b''] \<noteq> shared_lib_name [''b'', ''a'']
   \<and> shared_lib_name [''pkg.mod1'', ''pkg.mod2''] \<noteq> shared_lib_name [''pkg.mod1'']"
  using shared_lib_name_join [of ms ms']
  by (simp add: name_a_b name_b_a name_pkg_mod1_mod2 name_pkg_mod1)

theorem shared_lib_name_by_joined_list_witness:
  "join '','' [''pkg.mod1'', ''pkg.mod2''] = join '','' [''pkg.mod1'', ''pkg.mod2'']
   \<and> shared_lib_name [''pkg.mod1'', ''pkg.mod2''] = ''mypyc_bacd5eb729c309658bfb''"
  using shared_lib_name_by_joined_list [of "[''pkg.mod1'', ''pkg.mod2'']" "[''pkg.mod1'', ''pkg.mod2'']"]
  by (simp add: name_pkg_mod1_mod2)

section \<open>The relative path to the shared library\<close>

lemma length_split_go: "length (split_go c acc s) = Suc (count_list s c)"
  by (induction s arbitrary: acc) simp_all

lemma length_split: "length (split c s) = Suc (count_list s c)"
  by (simp add: split_def length_split_go)

lemma os_path_join_parents:
  "p \<noteq> [] \<Longrightarrow> last p \<noteq> CHR ''/'' \<Longrightarrow>
     os_path_join p (replicate k ''..'') = p @ concat (replicate k ''/..'')"
  by (induction k arbitrary: p) simp_all

lemma join_parents:
  "join ''/'' (replicate (Suc n) ''..'') = ''..'' @ concat (replicate n ''/..'')"
  by (induction n) simp_all

text \<open>
  C4. For every extension, the relative path from the shim to the shared library has as
  many parent-directory steps as the name of the extension has dots: it is the current
  directory \<open>.\<close> for a name without a dot, and otherwise that many \<open>..\<close> joined by the
  separator, \<open>../..\<close> for \<open>a.b.c\<close>.
\<close>

theorem get_rt_lib_path_steps:
  "get_rt_lib_path ext =
     Inr (if count_list (name ext) CHR ''.'' = 0 then ''.''
          else join ''/'' (replicate (count_list (name ext) CHR ''.'') ''..''))"
proof (cases "count_list (name ext) CHR ''.''")
  case 0
  then show ?thesis by (simp add: get_rt_lib_path_def length_split)
next
  case (Suc n)
  have "os_path_join ''..'' (replicate n ''..'') = ''..'' @ concat (replicate n ''/..'')"
    by (rule os_path_join_parents) simp_all
  moreover have "join ''/'' (replicate (Suc n) ''..'') = ''..'' @ concat (replicate n ''/..'')"
    by (rule join_parents)
  ultimately have "os_path_join ''..'' (replicate n ''..'') = join ''/'' (replicate (Suc n) ''..'')"
    by simp
  with Suc show ?thesis
    by (simp add: get_rt_lib_path_def length_split os_path_join_all_def
        del: join.simps os_path_join.simps)
qed

theorem get_rt_lib_path_steps_witness:
  "get_rt_lib_path
     (MypycifyExtension ''a.b.c'' [''build/a___b___c.c''] [] [] False None) = Inr ''../..''
   \<and> get_rt_lib_path (MypycifyExtension ''foo'' [''build/foo.c''] [] [] False None) = Inr ''.''"
  using
    get_rt_lib_path_steps
      [of "MypycifyExtension ''a.b.c'' [''build/a___b___c.c''] [] [] False None"]
    get_rt_lib_path_steps [of "MypycifyExtension ''foo'' [''build/foo.c''] [] [] False None"]
  by (simp add: numeral_eq_Suc)

section \<open>Results and their sequencing\<close>

lemma fst_bind_result_Inr:
  "fst (bind_result r f) = Inr y \<longleftrightarrow> (\<exists>x. fst r = Inr x \<and> fst (f x (snd r)) = Inr y)"
  by (cases r; cases "fst r") auto

lemma snd_bind_result_Inr: "fst r = Inr x \<Longrightarrow> snd (bind_result r f) = snd (f x (snd r))"
  by (cases r) auto

lemma bind_result_ok: "fst r = Inr x \<Longrightarrow> bind_result r f = f x (snd r)"
  by (cases r) auto

lemma only_files_refl: "only_files w w"
  by (simp add: only_files_def)

lemma only_files_trans: "only_files w w1 \<Longrightarrow> only_files w1 w2 \<Longrightarrow> only_files w w2"
  by (simp add: only_files_def)

lemma only_files_bind:
  assumes "\<And>x. only_files (snd r) (snd (f x (snd r)))"
  shows "only_files (snd r) (snd (bind_result r f))"
proof (cases r)
  case (Pair a w)
  then show ?thesis using assms by (cases a) (auto simp: only_files_refl)
qed

lemma only_files_bind':
  assumes "only_files w (snd r)" and "\<And>x w1. only_files w1 (snd (f x w1))"
  shows "only_files w (snd (bind_result r f))"
  using assms(1) only_files_bind [of r f] assms(2) only_files_trans by blast

section \<open>What only writes files\<close>

lemma only_files_open_w: "only_files w (snd (open_w p w))"
  by (simp add: open_w_def only_files_def)

lemma only_files_file_write: "only_files w (file_write p t w)"
  by (simp add: file_write_def only_files_def)

lemma only_files_write_text: "only_files w (snd (write_text p t w))"
  unfolding write_text_def
  by (rule only_files_bind' [OF only_files_open_w]) (simp add: only_files_file_write)

lemma only_files_copyfile: "only_files w (snd (copyfile src dst w))"
  by (simp add: copyfile_def only_files_write_text only_files_refl split: option.splits)

lemma only_files_generate_c_extension_shim:
  "only_files w (snd (generate_c_extension_shim env full m d w))"
  unfolding generate_c_extension_shim_def Let_def
  by (rule only_files_bind' [OF only_files_open_w])
     (simp add: only_files_file_write only_files_refl split: sum.splits)

lemma only_files_shim_extensions:
  "only_files w (snd (shim_extensions env sl bd args srcs acc w))"
proof (induction srcs arbitrary: acc w)
  case Nil
  show ?case by (simp add: only_files_refl)
next
  case (Cons s srcs)
  show ?case
    unfolding shim_extensions.simps Let_def
    by (rule only_files_bind' [OF only_files_generate_c_extension_shim])
       (simp add: only_files_refl Cons.IH split: option.splits)
qed

lemma only_files_build_using_shared_lib:
  "only_files w (snd (build_using_shared_lib env srcs l cfiles bd args w))"
  by (simp add: build_using_shared_lib_def Let_def only_files_shim_extensions)

lemma only_files_write_cfiles: "only_files w (snd (write_cfiles bd cfiles acc w))"
proof (induction cfiles arbitrary: acc w)
  case Nil
  show ?case by (simp add: only_files_refl)
next
  case (Cons c cfiles)
  obtain cfile ctext where c: "c = (cfile, ctext)" by (cases c)
  show ?case
    unfolding c write_cfiles.simps Let_def
    by (rule only_files_bind' [OF only_files_write_text]) (simp add: Cons.IH)
qed

lemma only_files_c_sources:
  "only_files w (snd (c_sources env srcs options lib co bd skip w))"
proof (cases skip)
  case True
  then show ?thesis by (simp add: c_sources_def only_files_refl)
next
  case False
  show ?thesis
  proof (cases "generate_c env srcs options lib co w")
    case (Inl e)
    with False show ?thesis by (simp add: c_sources_def only_files_refl)
  next
    case (Inr r)
    obtain cfiles ops where r: "r = (cfiles, ops)" by (cases r)
    have "only_files w
            (snd (bind_result (write_text (os_path_join bd [''ops.txt'']) ops w)
                    (\<lambda>_ w1. write_cfiles bd cfiles [] w1)))"
      by (rule only_files_bind' [OF only_files_write_text]) (rule only_files_write_cfiles)
    with False Inr r show ?thesis by (simp add: c_sources_def)
  qed
qed

section \<open>The build directory and the options list\<close>

lemma os_path_split_build: "os_path_split ''build'' = ([], ''build'')"
  by (simp add: os_path_split_def)

lemma try_mkdir_build:
  "try_mkdir ''build'' w =
     (Inr (), if ''build'' \<in> dirs w \<or> files w ''build'' \<noteq> None then w
              else w\<lparr>dirs := insert ''build'' (dirs w)\<rparr>)"
  by (simp add: try_mkdir_def os_mkdir_def parent_exists_def os_path_split_build)

lemma heap_try_mkdir_build: "heap (snd (try_mkdir ''build'' w)) = heap w"
  by (simp add: try_mkdir_build)

lemma files_try_mkdir_build: "files (snd (try_mkdir ''build'' w)) = files w"
  by (simp add: try_mkdir_build)

lemma dirs_try_mkdir_build:
  "files w ''build'' = None \<Longrightarrow> ''build'' \<in> dirs (snd (try_mkdir ''build'' w))"
  by (simp add: try_mkdir_build)

lemma options_list_frame:
  "dirs (snd (options_list mo ps w)) = dirs w \<and> files (snd (options_list mo ps w)) = files w"
  by (simp add: options_list_def or_new_list_def new_list_def list_extend_def list_append_def
      split: option.splits)

lemma list_update_twice:
  "xs[a := xs[a := xs ! a @ [y]] ! a @ ps] = xs[a := xs ! a @ y # ps]"
  by (cases "a < length xs") (simp_all add: list_update_beyond)

lemma heap_options_list:
  "heap (snd (options_list mo ps w)) =
     (case mo of
        None \<Rightarrow> heap w @ [''--'' # ps]
      | Some a \<Rightarrow> if heap w ! a = [] then heap w @ [''--'' # ps]
                  else (heap w)[a := heap w ! a @ ''--'' # ps])"
  by (simp add: options_list_def or_new_list_def new_list_def list_extend_def list_append_def
      list_update_twice split: option.splits)

lemma snd_get_mypy_config: "snd (get_mypy_config env ps mo w) = snd (options_list mo ps w)"
  by (simp add: get_mypy_config_def split: prod.splits sum.splits)

lemma get_mypy_config_parsed:
  assumes "parsed_config env paths mo w = Inr (srcs, options)"
  shows "fst (get_mypy_config env (concat (map (glob env w) paths)) mo
                (snd (try_mkdir ''build'' w))) =
         (if fst (python_version options) = 2 then Inl (fail ''Python 2 not supported'')
          else if \<not> strict_optional options
          then Inl (fail ''Disabling strict optional checking not supported'')
          else Inr (srcs,
                    foldl set_mypyc
                      (options\<lparr>show_traceback := True, export_types := True,
                               incremental := False\<rparr>) srcs))"
  using assms by (simp add: parsed_config_def get_mypy_config_def split: prod.splits)

section \<open>The steps of \<open>mypycify\<close>\<close>

lemma only_files_after_config:
  "only_files w1
     (snd (bind_result (c_sources env srcs options lib co bd skip w1)
        (\<lambda>cfilenames w2.
           bind_result (copyfile src dst w2)
             (\<lambda>_ w3. if shared then
                        (case lib of
                           None \<Rightarrow> (Inl AssertionError, w3)
                         | Some l \<Rightarrow> if l = [] then (Inl AssertionError, w3)
                                     else build_using_shared_lib env srcs l (cfilenames @ [dst]) bd args w3)
                      else (build_single_module env srcs (cfilenames @ [dst]) args, w3)))))"
  apply (rule only_files_bind' [OF only_files_c_sources])
  apply (rule only_files_bind' [OF only_files_copyfile])
  apply (simp add: only_files_refl only_files_build_using_shared_lib split: option.splits)
  done

lemma mypycify_frame:
  "only_files (snd (options_list mo (concat (map (glob env w) paths)) (snd (try_mkdir ''build'' w))))
     (snd (mypycify env paths mo opt multi skip verb strip w))"
proof -
  have ok: "fst (try_mkdir ''build'' w) = Inr ()" by (simp add: try_mkdir_build)
  show ?thesis
    unfolding mypycify_def Let_def bind_result_ok [OF ok]
    apply (rule only_files_bind')
     apply (simp add: snd_get_mypy_config only_files_refl)
    apply (simp only: split_paired_all prod.case)
    apply (rule only_files_after_config)
    done
qed

lemma mypycify_unfold:
  "mypycify env paths mo opt multi skip verb strip w =
     bind_result
       (get_mypy_config env (concat (map (glob env w) paths)) mo (snd (try_mkdir ''build'' w)))
       (\<lambda>(srcs, options) w1.
          bind_result
            (c_sources env srcs options
               (if use_shared_lib srcs then Some (shared_lib_name (map module srcs)) else None)
               \<lparr>strip_asserts = strip, multi_file = multi, verbose = verb\<rparr> ''build'' skip w1)
            (\<lambda>cfilenames w2.
               bind_result
                 (copyfile (os_path_join (include_dir env) [''CPy.c''])
                    (os_path_join ''build'' [''CPy.c'']) w2)
                 (\<lambda>_ w3.
                    if use_shared_lib srcs then
                      (case (if use_shared_lib srcs
                             then Some (shared_lib_name (map module srcs)) else None) of
                         None \<Rightarrow> (Inl AssertionError, w3)
                       | Some l \<Rightarrow>
                           if l = [] then (Inl AssertionError, w3)
                           else build_using_shared_lib env srcs l
                                  (cfilenames @ [os_path_join ''build'' [''CPy.c'']]) ''build''
                                  (cflags env opt multi) w3)
                    else
                      (build_single_module env srcs
                         (cfilenames @ [os_path_join ''build'' [''CPy.c'']])
                         (cflags env opt multi), w3))))"
proof -
  have ok: "fst (try_mkdir ''build'' w) = Inr ()" by (simp add: try_mkdir_build)
  show ?thesis
    unfolding mypycify_def Let_def bind_result_ok [OF ok] ..
qed

lemma mypycify_fails_with_config:
  assumes "fst (get_mypy_config env (concat (map (glob env w) paths)) mo
                  (snd (try_mkdir ''build'' w))) = Inl e"
  shows "fst (mypycify env paths mo opt multi skip verb strip w) = Inl e"
    and "snd (mypycify env paths mo opt multi skip verb strip w) =
         snd (get_mypy_config env (concat (map (glob env w) paths)) mo
                (snd (try_mkdir ''build'' w)))"
proof -
  obtain w1 where "get_mypy_config env (concat (map (glob env w) paths)) mo
                  (snd (try_mkdir ''build'' w)) = (Inl e, w1)"
    using assms by (metis prod.collapse)
  then show "fst (mypycify env paths mo opt multi skip verb strip w) = Inl e"
    and "snd (mypycify env paths mo opt multi skip verb strip w) =
         snd (get_mypy_config env (concat (map (glob env w) paths)) mo
                (snd (try_mkdir ''build'' w)))"
    unfolding mypycify_unfold by simp_all
qed

lemma mypycify_dirs:
  "dirs (snd (mypycify env paths mo opt multi skip verb strip w)) =
     dirs (snd (try_mkdir ''build'' w))"
  using mypycify_frame [of mo env w paths opt multi skip verb strip]
  by (simp add: only_files_def options_list_frame)

lemma mypycify_heap:
  "heap (snd (mypycify env paths mo opt multi skip verb strip w)) =
     (case mo of
        None \<Rightarrow> heap w @ [''--'' # concat (map (glob env w) paths)]
      | Some a \<Rightarrow>
          if heap w ! a = [] then heap w @ [''--'' # concat (map (glob env w) paths)]
          else (heap w)[a := heap w ! a @ ''--'' # concat (map (glob env w) paths)])"
  using mypycify_frame [of mo env w paths opt multi skip verb strip]
  by (simp add: only_files_def heap_options_list heap_try_mkdir_build split: option.splits)

section \<open>The text of a shim\<close>

text \<open>Both templates are well formed: formatting them cannot fail, and gives these texts.\<close>

lemma format_shim_template_unix:
  \<open>format shim_template_unix [(''modname'', m), (''full_modname'', f)] =
     Inr (lines_text
       [''#include <Python.h>'',
        '''',
        ''PyObject *CPyInit_'' @ f @ ''(void);'',
        '''',
        ''PyMODINIT_FUNC'',
        ''PyInit_'' @ m @ ''(void)'',
        ''{'',
        ''    return CPyInit_'' @ f @ ''();'',
        ''}''])\<close>
  by (simp add: format_def shim_template_unix_def lines_text_def)

lemma format_shim_template_windows:
  \<open>format shim_template_windows [(''modname'', m), (''full_modname'', f)] =
     Inr (lines_text
       [[CHR 0x5C],
        ''#include <Python.h>'',
        ''#include <windows.h>'',
        ''#include <stdlib.h>'',
        ''#include <stdio.h>'',
        '''',
        ''EXTERN_C IMAGE_DOS_HEADER __ImageBase;'',
        '''',
        ''typedef PyObject *(__cdecl *INITPROC)();'',
        '''',
        ''PyMODINIT_FUNC'',
        ''PyInit_'' @ m @ ''(void)'',
        ''{'',
        ''    char path[MAX_PATH];'',
        ''    char drive[MAX_PATH];'',
        ''    char directory[MAX_PATH];'',
        ''    HINSTANCE hinstLib;'',
        ''    INITPROC proc;'',
        '''',
        ''    // get the file name of this dll'',
        ''    DWORD res = GetModuleFileName((HINSTANCE)&__ImageBase, path, sizeof(path));'',
        ''    if (res == 0 || res == sizeof(path)) {'',
        ''        PyErr_SetString(PyExc_RuntimeError, "GetModuleFileName failed");'',
        ''        return NULL;'',
        ''    }'',
        '''',
        ''    // find the directory this dll is in'',
        ''    _splitpath(path, drive, directory, NULL, NULL);'',
        ''    // and use it to construct a path to the shared library'',
        ''    snprintf(path, sizeof(path), "%s%s%s", drive, directory, MYPYC_LIBRARY);'',
        '''',
        ''    hinstLib = LoadLibrary(path);'',
        ''    if (!hinstLib) {'',
        ''        PyErr_SetString(PyExc_RuntimeError, "LoadLibrary failed");'',
        ''        return NULL;'',
        ''    }'',
        ''    proc = (INITPROC)GetProcAddress(hinstLib, "CPyInit_'' @ f @ ''");'',
        ''    if (!proc) {'',
        ''        PyErr_SetString(PyExc_RuntimeError, "GetProcAddress failed");'',
        ''        return NULL;'',
        ''    }'',
        '''',
        ''    return proc();'',
        ''}'',
        '''',
        ''// distutils sometimes spuriously tells cl to export CPyInit___init__,'',
        ''// so provide that so it chills out'',
        ''PyMODINIT_FUNC PyInit___init__(void) { return PyInit_'' @ m @ ''(); }''])\<close>
  by (simp add: format_def shim_template_windows_def lines_text_def)

lemma format_shim_template:
  "\<exists>t. format (if win then shim_template_windows else shim_template_unix)
          [(''modname'', m), (''full_modname'', f)] = Inr t"
  by (simp add: format_shim_template_unix format_shim_template_windows)

lemma generate_c_extension_shim_path:
  assumes "fst (generate_c_extension_shim env full m d w) = Inr p"
  shows "p = os_path_join d [replace CHR ''.'' ''___'' full @ ''.c'']"
  using assms
  by (auto simp: generate_c_extension_shim_def Let_def fst_bind_result_Inr split: sum.splits)

lemma generate_c_extension_shim_text:
  assumes "fst (generate_c_extension_shim env full m d w) = Inr p"
  shows "\<exists>t. format (if sys_platform env = ''win32'' then shim_template_windows
                     else shim_template_unix)
                 [(''modname'', m), (''full_modname'', exported_name env full)] = Inr t
             \<and> files (snd (generate_c_extension_shim env full m d w)) p = Some t"
proof -
  let ?p = "os_path_join d [replace CHR ''.'' ''___'' full @ ''.c'']"
  let ?f = "format (if sys_platform env = ''win32'' then shim_template_windows
                    else shim_template_unix)
              [(''modname'', m), (''full_modname'', exported_name env full)]"
  have p: "p = ?p" using assms by (rule generate_c_extension_shim_path)
  from assms have o: "fst (open_w ?p w) = Inr ()"
    by (auto simp: generate_c_extension_shim_def Let_def fst_bind_result_Inr)
  then have empty: "files (snd (open_w ?p w)) ?p = Some []"
    by (auto simp: open_w_def split: if_splits)
  from assms obtain t where t: "?f = Inr t"
    unfolding generate_c_extension_shim_def Let_def bind_result_ok [OF o]
    by (cases ?f) auto
  have "files (snd (generate_c_extension_shim env full m d w)) ?p = Some t"
    unfolding generate_c_extension_shim_def Let_def bind_result_ok [OF o]
    using t empty by (simp add: file_write_def)
  with t p show ?thesis by simp
qed

lemma generate_c_extension_shim_ok:
  assumes "parent_exists (os_path_join d [replace CHR ''.'' ''___'' full @ ''.c'']) w"
    and "os_path_join d [replace CHR ''.'' ''___'' full @ ''.c''] \<notin> dirs w"
  shows "fst (generate_c_extension_shim env full m d w) =
           Inr (os_path_join d [replace CHR ''.'' ''___'' full @ ''.c''])"
proof -
  let ?p = "os_path_join d [replace CHR ''.'' ''___'' full @ ''.c'']"
  from assms have o: "fst (open_w ?p w) = Inr ()"
    by (simp add: open_w_def)
  obtain t where "format (if sys_platform env = ''win32'' then shim_template_windows
                          else shim_template_unix)
                    [(''modname'', m), (''full_modname'', exported_name env full)] = Inr t"
    using format_shim_template by blast
  then show ?thesis
    unfolding generate_c_extension_shim_def Let_def bind_result_ok [OF o] by simp
qed

section \<open>The extensions of a build\<close>

lemma shim_extensions_Inr:
  "fst (shim_extensions env sl bd args srcs acc w) = Inr exts \<Longrightarrow>
     exts = acc @
       map (\<lambda>s. MypycifyExtension
                  (if snd (os_path_split (the (path s))) = ''__init__.py''
                   then module s @ ''.__init__'' else module s)
                  [os_path_join bd [replace CHR ''.'' ''___'' (module s) @ ''.c'']]
                  [] args False (Some sl)) srcs
     \<and> (\<forall>s \<in> set srcs. \<exists>p. path s = Some p \<and> p \<noteq> [])"
proof (induction srcs arbitrary: acc w)
  case Nil
  then show ?case by simp
next
  case (Cons s srcs)
  let ?g = "generate_c_extension_shim env (module s) (last (split CHR ''.'' (module s))) bd w"
  from Cons.prems obtain shim_file where g: "fst ?g = Inr shim_file"
    by (auto simp: Let_def fst_bind_result_Inr)
  have sf: "shim_file = os_path_join bd [replace CHR ''.'' ''___'' (module s) @ ''.c'']"
    using g by (rule generate_c_extension_shim_path)
  from Cons.prems obtain p where p: "path s = Some p" "p \<noteq> []"
    by (auto simp: Let_def bind_result_ok [OF g] split: option.splits if_splits)
  let ?e = "MypycifyExtension
              (if snd (os_path_split p) = ''__init__.py''
               then module s @ ''.__init__'' else module s) [shim_file] [] args False (Some sl)"
  from Cons.prems p
  have "fst (shim_extensions env sl bd args srcs (acc @ [?e]) (snd ?g)) = Inr exts"
    by (simp add: Let_def bind_result_ok [OF g])
  from Cons.IH [OF this] p sf show ?case by simp
qed

lemma build_using_shared_lib_Inr:
  assumes "fst (build_using_shared_lib env srcs l cfiles bd args w) = Inr exts"
  shows "exts =
           MypycifyExtension (''lib'' @ l) cfiles [include_dir env] args True None #
           map (\<lambda>s. MypycifyExtension
                  (if snd (os_path_split (the (path s))) = ''__init__.py''
                   then module s @ ''.__init__'' else module s)
                  [os_path_join bd [replace CHR ''.'' ''___'' (module s) @ ''.c'']]
                  [] args False
                  (Some (MypycifyExtension (''lib'' @ l) cfiles [include_dir env] args True None)))
             srcs"
    and "\<forall>s \<in> set srcs. \<exists>p. path s = Some p \<and> p \<noteq> []"
  using shim_extensions_Inr [OF assms [unfolded build_using_shared_lib_def Let_def]]
  by simp_all

lemma mypycify_Inr:
  assumes pc: "parsed_config env paths mo w = Inr (srcs, options)"
    and ok: "fst (mypycify env paths mo opt multi skip verb strip w) = Inr exts"
  shows "\<exists>cfiles w3.
           (if use_shared_lib srcs
            then fst (build_using_shared_lib env srcs (shared_lib_name (map module srcs))
                        cfiles ''build'' (cflags env opt multi) w3) = Inr exts
            else build_single_module env srcs cfiles (cflags env opt multi) = Inr exts)"
proof -
  let ?c = "get_mypy_config env (concat (map (glob env w) paths)) mo (snd (try_mkdir ''build'' w))"
  from ok obtain x where x: "fst ?c = Inr x"
    unfolding mypycify_unfold fst_bind_result_Inr by blast
  with get_mypy_config_parsed [OF pc] obtain options' where "x = (srcs, options')"
    by (auto split: if_splits)
  with x have c: "fst ?c = Inr (srcs, options')" by simp
  from ok show ?thesis
    unfolding mypycify_unfold bind_result_ok [OF c]
    by (auto simp: fst_bind_result_Inr split: if_splits)
qed

lemma mypycify_empty_fails:
  assumes "parsed_config env paths mo w = Inr ([], options)"
  shows "\<exists>e. fst (mypycify env paths mo opt multi skip verb strip w) = Inl e"
proof (cases "fst (mypycify env paths mo opt multi skip verb strip w)")
  case (Inl e)
  then show ?thesis by blast
next
  case (Inr exts)
  from mypycify_Inr [OF assms Inr] have False
    by (simp add: use_shared_lib_def build_single_module_def)
  then show ?thesis ..
qed

section \<open>The sample build, evaluated\<close>

lemma shared_lib_name_nonempty: "shared_lib_name ms \<noteq> []"
  by (simp add: shared_lib_name_def)

lemmas build_eval =
  mypycify_unfold get_mypy_config_def options_list_def or_new_list_def new_list_def
  list_extend_def list_append_def try_mkdir_build c_sources_def generate_c_def write_text_def
  open_w_def parent_exists_def os_path_split_def os_path_splitext_def file_write_def
  copyfile_def include_dir_def build_single_module_def build_using_shared_lib_def
  generate_c_extension_shim_def cflags_def use_shared_lib_def fail_def
  sample_env_def sample_options_def sample_world_def parsed_config_def
  shared_lib_name_nonempty Let_def split_def replace_def

lemma sample_parsed:
  "parsed_config (sample_env srcs options) paths mo w = Inr (srcs, options)"
  by (simp add: parsed_config_def sample_env_def split: prod.splits)

lemma use_shared_lib_foo: "\<not> use_shared_lib [foo_source]"
  by (simp add: use_shared_lib_def foo_source_def)

lemma use_shared_lib_pkg: "use_shared_lib pkg_sources"
  by (simp add: use_shared_lib_def pkg_sources_def)

lemma sample_single:
  "fst (mypycify (sample_env [foo_source] (sample_options (3, 7) True))
          [''foo.py''] None ''3'' False False False False (sample_world [])) =
   Inr [MypycifyExtension ''foo'' [''build/__native.c'', ''build/CPy.c'']
          [''/opt/mypyc/lib-rt'']
          [''-O3'', ''-Werror'', ''-Wno-unused-function'', ''-Wno-unused-label'',
           ''-Wno-unreachable-code'', ''-Wno-unused-variable'', ''-Wno-trigraphs'',
           ''-Wno-unused-command-line-argument'', ''-Wno-unused-but-set-variable'']
          False None]"
  by (simp add: build_eval foo_source_def)

lemma sample_shared:
  "fst (mypycify (sample_env pkg_sources (sample_options (3, 7) True))
          [''a/__init__.py'', ''a/b.py''] None ''3'' False False False False (sample_world [])) =
   Inr [sample_shared_lib,
        MypycifyExtension ''a.__init__'' [''build/a.c''] [] sample_flags False
          (Some sample_shared_lib),
        MypycifyExtension ''a.b'' [''build/a___b.c''] [] sample_flags False
          (Some sample_shared_lib)]"
  by (simp add: build_eval pkg_sources_def format_def shim_template_unix_def lines_text_def
      sample_flags_def sample_shared_lib_def)

lemma sample_empty:
  "fst (mypycify (sample_env [] (sample_options (3, 7) True)) [] None ''3'' False False False
          False (sample_world [])) = Inl IndexError"
  by (simp add: build_eval)

lemma sample_empty_dirs:
  "dirs (snd (mypycify (sample_env [] (sample_options (3, 7) True)) [] None ''3'' False False
          False False (sample_world []))) = {''build''}"
  by (simp add: mypycify_dirs try_mkdir_build sample_world_def)

lemma sample_shim_text:
  "files (snd (generate_c_extension_shim (sample_env pkg_sources (sample_options (3, 7) True))
                 ''a.b'' ''b'' [] (sample_world [''-v'']))) ''a___b.c'' =
     Some (lines_text
       [''#include <Python.h>'',
        [],
        ''PyObject *CPyInit_a___b(void);'',
        [],
        ''PyMODINIT_FUNC'',
        ''PyInit_b(void)'',
        ''{'',
        ''    return CPyInit_a___b();'',
        ''}''])"
  by (simp add: generate_c_extension_shim_def open_w_def parent_exists_def os_path_split_def
      file_write_def sample_env_def sample_world_def format_def shim_template_unix_def
      lines_text_def replace_def Let_def)

section \<open>The strategy and the descriptors\<close>

text \<open>
  C1. For every non-empty module set the build uses the shared library exactly when the
  set has more than one module or the name of a module contains a dot, and does not
  exactly when there is one module without a dot in its name; a build that does not use
  it and succeeds returns one extension, named after the module, that is not the shared
  library and has no back-reference.
\<close>

theorem mypycify_strategy:
  "(srcs \<noteq> [] \<longrightarrow>
      (use_shared_lib srcs \<longleftrightarrow>
         1 < length srcs \<or> (\<exists>x \<in> set srcs. CHR ''.'' \<in> set (module x))) \<and>
      (\<not> use_shared_lib srcs \<longleftrightarrow>
         length srcs = 1 \<and> (\<forall>x \<in> set srcs. CHR ''.'' \<notin> set (module x))))
   \<and> (parsed_config env paths mo w = Inr (srcs, options) \<and>
       fst (mypycify env paths mo opt multi skip verb strip w) = Inr exts \<and>
       \<not> use_shared_lib srcs \<longrightarrow>
         length exts = 1 \<and> mypyc_shared_target (hd exts) = None \<and>
         \<not> is_mypyc_shared (hd exts) \<and> name (hd exts) = module (hd srcs))"
proof -
  have strategy: "use_shared_lib srcs \<longleftrightarrow>
      1 < length srcs \<or> (\<exists>x \<in> set srcs. CHR ''.'' \<in> set (module x))"
    by (simp add: use_shared_lib_def)
  have single: "\<not> use_shared_lib srcs \<longleftrightarrow>
      length srcs = 1 \<and> (\<forall>x \<in> set srcs. CHR ''.'' \<notin> set (module x))"
    if "srcs \<noteq> []"
  proof -
    from that have "length srcs = 1 \<longleftrightarrow> \<not> 1 < length srcs"
      by (cases srcs) auto
    then show ?thesis unfolding strategy by blast
  qed
  have result: "length exts = 1 \<and> mypyc_shared_target (hd exts) = None \<and>
      \<not> is_mypyc_shared (hd exts) \<and> name (hd exts) = module (hd srcs)"
    if pc: "parsed_config env paths mo w = Inr (srcs, options)"
      and ok: "fst (mypycify env paths mo opt multi skip verb strip w) = Inr exts"
      and no: "\<not> use_shared_lib srcs"
  proof -
    from mypycify_Inr [OF pc ok] no obtain cfiles
      where "build_single_module env srcs cfiles (cflags env opt multi) = Inr exts"
      by auto
    then show ?thesis
      by (auto simp: build_single_module_def split: list.splits)
  qed
  from strategy single result show ?thesis by blast
qed

theorem mypycify_strategy_witness:
  "[foo_source] \<noteq> [] \<and> \<not> use_shared_lib [foo_source] \<and> use_shared_lib pkg_sources
   \<and> length (projr (fst (mypycify (sample_env [foo_source] (sample_options (3, 7) True))
          [''foo.py''] None ''3'' False False False False (sample_world [])))) = 1"
  using
    mypycify_strategy
      [of "[foo_source]" "sample_env [foo_source] (sample_options (3, 7) True)" "[''foo.py'']"
          None "sample_world []" "sample_options (3, 7) True" "''3''" False False False False
          "projr (fst (mypycify (sample_env [foo_source] (sample_options (3, 7) True))
             [''foo.py''] None ''3'' False False False False (sample_world [])))"]
    sample_parsed [of "[foo_source]" "sample_options (3, 7) True" "[''foo.py'']" None "sample_world []"]
    sample_single use_shared_lib_foo use_shared_lib_pkg
  by simp

text \<open>
  C2. A build over \<open>N\<close> modules that uses the shared library and succeeds returns
  \<open>N + 1\<close> extensions: the first is marked as the shared library, it is the only one so
  marked, and each of the others has a back-reference to it.
\<close>

theorem shared_build_descriptors:
  assumes "parsed_config env paths mo w = Inr (srcs, options)"
    and "fst (mypycify env paths mo opt multi skip verb strip w) = Inr exts"
    and "use_shared_lib srcs"
  shows "length exts = length srcs + 1
       \<and> is_mypyc_shared (hd exts)
       \<and> length (filter is_mypyc_shared exts) = 1
       \<and> (\<forall>e \<in> set (tl exts). \<not> is_mypyc_shared e \<and> mypyc_shared_target e = Some (hd exts))"
proof -
  from mypycify_Inr [OF assms(1,2)] assms(3) obtain cfiles w3
    where "fst (build_using_shared_lib env srcs (shared_lib_name (map module srcs))
                  cfiles ''build'' (cflags env opt multi) w3) = Inr exts"
    by auto
  note e = build_using_shared_lib_Inr(1) [OF this]
  show ?thesis
    by (subst (1 2 3 4 5) e) (simp add: filter_map o_def)
qed

theorem shared_build_descriptors_witness:
  "use_shared_lib pkg_sources
   \<and> length (projr (fst (mypycify (sample_env pkg_sources (sample_options (3, 7) True))
          [''a/__init__.py'', ''a/b.py''] None ''3'' False False False False (sample_world [])))) = 3
   \<and> hd (projr (fst (mypycify (sample_env pkg_sources (sample_options (3, 7) True))
          [''a/__init__.py'', ''a/b.py''] None ''3'' False False False False (sample_world []))))
       = sample_shared_lib"
  using
    shared_build_descriptors
      [of "sample_env pkg_sources (sample_options (3, 7) True)" "[''a/__init__.py'', ''a/b.py'']"
          None "sample_world []" pkg_sources "sample_options (3, 7) True"
          "''3''" False False False False
          "projr (fst (mypycify (sample_env pkg_sources (sample_options (3, 7) True))
             [''a/__init__.py'', ''a/b.py''] None ''3'' False False False False (sample_world [])))"]
    sample_parsed [of pkg_sources "sample_options (3, 7) True" "[''a/__init__.py'', ''a/b.py'']" None
      "sample_world []"]
    sample_shared use_shared_lib_pkg
  by simp

text \<open>
  C5. In a build that uses the shared library and succeeds, the extension of the shim of
  each module is named after the module, with \<open>.__init__\<close> appended exactly when the last
  component of the path of its source file is \<open>__init__.py\<close>.
\<close>

theorem shim_names:
  assumes "parsed_config env paths mo w = Inr (srcs, options)"
    and "fst (mypycify env paths mo opt multi skip verb strip w) = Inr exts"
    and "use_shared_lib srcs"
    and "i < length srcs"
  shows "\<exists>p. path (srcs ! i) = Some p
           \<and> name (exts ! Suc i) =
               (if snd (os_path_split p) = ''__init__.py''
                then module (srcs ! i) @ ''.__init__'' else module (srcs ! i))"
proof -
  from mypycify_Inr [OF assms(1,2)] assms(3) obtain cfiles w3
    where b: "fst (build_using_shared_lib env srcs (shared_lib_name (map module srcs))
                  cfiles ''build'' (cflags env opt multi) w3) = Inr exts"
    by auto
  from build_using_shared_lib_Inr(2) [OF b] assms(4)
  obtain p where p: "path (srcs ! i) = Some p" by (meson nth_mem)
  show ?thesis
    using p assms(4) by (subst build_using_shared_lib_Inr(1) [OF b]) simp
qed

theorem shim_names_witness:
  "name (projr (fst (mypycify (sample_env pkg_sources (sample_options (3, 7) True))
          [''a/__init__.py'', ''a/b.py''] None ''3'' False False False False (sample_world []))) ! 1)
     = ''a.__init__''
   \<and> name (projr (fst (mypycify (sample_env pkg_sources (sample_options (3, 7) True))
          [''a/__init__.py'', ''a/b.py''] None ''3'' False False False False (sample_world []))) ! 2)
     = ''a.b''"
  using
    shim_names
      [of "sample_env pkg_sources (sample_options (3, 7) True)" "[''a/__init__.py'', ''a/b.py'']"
          None "sample_world []" pkg_sources "sample_options (3, 7) True"
          "''3''" False False False False
          "projr (fst (mypycify (sample_env pkg_sources (sample_options (3, 7) True))
             [''a/__init__.py'', ''a/b.py''] None ''3'' False False False False (sample_world [])))"
          0]
    shim_names
      [of "sample_env pkg_sources (sample_options (3, 7) True)" "[''a/__init__.py'', ''a/b.py'']"
          None "sample_world []" pkg_sources "sample_options (3, 7) True"
          "''3''" False False False False
          "projr (fst (mypycify (sample_env pkg_sources (sample_options (3, 7) True))
             [''a/__init__.py'', ''a/b.py''] None ''3'' False False False False (sample_world [])))"
          1]
    sample_parsed [of pkg_sources "sample_options (3, 7) True" "[''a/__init__.py'', ''a/b.py'']" None
      "sample_world []"]
    sample_shared use_shared_lib_pkg
  by (simp add: pkg_sources_def os_path_split_def)

section \<open>The empty module set\<close>

text \<open>
  C6, as stated: for the empty module set no build directory is created and the build
  fails with a configuration error. In the sample world, which has no directory
  \<open>build\<close>, the build of the empty module set creates it, and it fails only at the very
  end, with the \<open>IndexError\<close> of \<open>sources[0]\<close>.
\<close>

theorem empty_module_set_counterexample:
  "parsed_config (sample_env [] (sample_options (3, 7) True)) [] None (sample_world []) =
     Inr ([], sample_options (3, 7) True)
   \<and> ''build'' \<notin> dirs (sample_world [])
   \<and> ''build'' \<in> dirs (snd (mypycify (sample_env [] (sample_options (3, 7) True)) [] None ''3''
          False False False False (sample_world [])))
   \<and> fst (mypycify (sample_env [] (sample_options (3, 7) True)) [] None ''3'' False False False
          False (sample_world [])) = Inl IndexError"
  by (simp add: sample_parsed sample_empty sample_empty_dirs) (simp add: sample_world_def)

text \<open>
  C6, amended. For the empty module set the build fails, so it returns no extensions; and
  every call of \<open>mypycify\<close> leaves a build directory behind unless a file of that name is
  in the way, because the directory is created before the module set is looked at.
\<close>

theorem empty_module_set:
  "(parsed_config env paths mo w = Inr ([], options) \<longrightarrow>
      (\<exists>e. fst (mypycify env paths mo opt multi skip verb strip w) = Inl e))
   \<and> (files w ''build'' = None \<longrightarrow>
        ''build'' \<in> dirs (snd (mypycify env paths mo opt multi skip verb strip w)))"
  using mypycify_empty_fails [of env paths mo w options opt multi skip verb strip]
  by (simp add: mypycify_dirs dirs_try_mkdir_build)

theorem empty_module_set_witness:
  "files (sample_world []) ''build'' = None
   \<and> fst (mypycify (sample_env [] (sample_options (3, 7) True)) [] None ''3'' False False False
          False (sample_world [])) = Inl IndexError
   \<and> ''build'' \<in> dirs (snd (mypycify (sample_env [] (sample_options (3, 7) True)) [] None ''3''
          False False False False (sample_world [])))"
  using
    empty_module_set
      [of "sample_env [] (sample_options (3, 7) True)" "[]" None "sample_world []"
          "sample_options (3, 7) True" "''3''" False False False False]
    sample_parsed [of "[]" "sample_options (3, 7) True" "[]" None "sample_world []"]
    sample_empty
  by (simp add: sample_world_def)

section \<open>The shim source\<close>

text \<open>
  C7. The text of a shim is determined by the full module name, the short module name and
  the platform: two generations for the same names, on platforms that agree on being
  Windows and with the same exported name, in any two directories and worlds in which
  the file can be opened, both succeed and write the same text.
\<close>

theorem shim_source_deterministic:
  assumes "(sys_platform env = ''win32'') = (sys_platform env' = ''win32'')"
    and "exported_name env full = exported_name env' full"
    and "p = os_path_join d [replace CHR ''.'' ''___'' full @ ''.c'']"
    and "p' = os_path_join d' [replace CHR ''.'' ''___'' full @ ''.c'']"
    and "parent_exists p w" and "p \<notin> dirs w"
    and "parent_exists p' w'" and "p' \<notin> dirs w'"
  shows "\<exists>t. fst (generate_c_extension_shim env full m d w) = Inr p
           \<and> fst (generate_c_extension_shim env' full m d' w') = Inr p'
           \<and> files (snd (generate_c_extension_shim env full m d w)) p = Some t
           \<and> files (snd (generate_c_extension_shim env' full m d' w')) p' = Some t"
proof -
  have a: "fst (generate_c_extension_shim env full m d w) = Inr p"
    unfolding assms(3) using assms(5,6) unfolding assms(3)
    by (rule generate_c_extension_shim_ok)
  have b: "fst (generate_c_extension_shim env' full m d' w') = Inr p'"
    unfolding assms(4) using assms(7,8) unfolding assms(4)
    by (rule generate_c_extension_shim_ok)
  from generate_c_extension_shim_text [OF a] generate_c_extension_shim_text [OF b] assms(1,2) a b
  show ?thesis by auto
qed

theorem shim_source_deterministic_witness:
  "parent_exists ''build/a___b.c'' ((sample_world [])\<lparr>dirs := {''build''}\<rparr>)
   \<and> parent_exists ''a___b.c'' (sample_world [''-v''])
   \<and> files (snd (generate_c_extension_shim (sample_env [] (sample_options (3, 7) True)) ''a.b'' ''b''
                 ''build'' ((sample_world [])\<lparr>dirs := {''build''}\<rparr>))) ''build/a___b.c'' =
     files (snd (generate_c_extension_shim (sample_env pkg_sources (sample_options (3, 7) True))
                 ''a.b'' ''b'' [] (sample_world [''-v'']))) ''a___b.c''"
proof -
  let ?env = "sample_env [] (sample_options (3, 7) True)"
  let ?env' = "sample_env pkg_sources (sample_options (3, 7) True)"
  let ?w = "(sample_world [])\<lparr>dirs := {''build''}\<rparr>"
  let ?w' = "sample_world [''-v'']"
  have platform: "(sys_platform ?env = ''win32'') = (sys_platform ?env' = ''win32'')"
    by (simp add: sample_env_def)
  have exported: "exported_name ?env ''a.b'' = exported_name ?env' ''a.b''"
    by (simp add: sample_env_def)
  have p: "''build/a___b.c'' = os_path_join ''build'' [replace CHR ''.'' ''___'' ''a.b'' @ ''.c'']"
    by (simp add: replace_def)
  have p': "''a___b.c'' = os_path_join [] [replace CHR ''.'' ''___'' ''a.b'' @ ''.c'']"
    by (simp add: replace_def)
  have parent: "parent_exists ''build/a___b.c'' ?w"
    by (simp add: parent_exists_def os_path_split_def sample_world_def)
  have nodir: "''build/a___b.c'' \<notin> dirs ?w"
    by (simp add: sample_world_def)
  have parent': "parent_exists ''a___b.c'' ?w'"
    by (simp add: parent_exists_def os_path_split_def sample_world_def)
  have nodir': "''a___b.c'' \<notin> dirs ?w'"
    by (simp add: sample_world_def)
  from shim_source_deterministic [OF platform exported p p' parent nodir parent' nodir', of "''b''"]
  have "files (snd (generate_c_extension_shim ?env ''a.b'' ''b'' ''build'' ?w)) ''build/a___b.c'' =
        files (snd (generate_c_extension_shim ?env' ''a.b'' ''b'' [] ?w')) ''a___b.c''"
    by (elim exE conjE) (simp only:)
  with parent parent' show ?thesis by (intro conjI)
qed

section \<open>Configurations that are not supported\<close>

text \<open>
  C8. When the options select Python 2 or switch strict optional checking off, the build
  ends with \<open>SystemExit\<close> carrying a message that is not empty, so with an exit status
  other than 0; nothing catches it, no extensions are returned and no file was written.
\<close>

theorem unsupported_configuration:
  assumes "parsed_config env paths mo w = Inr (srcs, options)"
    and "fst (python_version options) = 2 \<or> \<not> strict_optional options"
  shows "\<exists>msg. fst (mypycify env paths mo opt multi skip verb strip w) =
                 Inl (SystemExit (ExitStr msg))
             \<and> msg = (if fst (python_version options) = 2 then ''Python 2 not supported''
                      else ''Disabling strict optional checking not supported'')
             \<and> msg \<noteq> []
             \<and> exit_status (SystemExit (ExitStr msg)) \<noteq> 0
             \<and> files (snd (mypycify env paths mo opt multi skip verb strip w)) = files w"
proof -
  let ?msg = "if fst (python_version options) = 2 then ''Python 2 not supported''
              else ''Disabling strict optional checking not supported''"
  let ?c = "get_mypy_config env (concat (map (glob env w) paths)) mo (snd (try_mkdir ''build'' w))"
  from get_mypy_config_parsed [OF assms(1)] assms(2)
  have c: "fst ?c = Inl (SystemExit (ExitStr ?msg))"
    by (auto simp: fail_def)
  note f = mypycify_fails_with_config [OF c]
  have "files (snd ?c) = files w"
    by (simp add: snd_get_mypy_config options_list_frame files_try_mkdir_build)
  with f show ?thesis by simp
qed

theorem unsupported_configuration_witness:
  "fst (mypycify (sample_env [foo_source] (sample_options (2, 7) True)) [''foo.py''] None ''3''
          False False False False (sample_world [])) =
     Inl (SystemExit (ExitStr ''Python 2 not supported''))
   \<and> fst (mypycify (sample_env [foo_source] (sample_options (3, 7) False)) [''foo.py''] None ''3''
          False False False False (sample_world [])) =
     Inl (SystemExit (ExitStr ''Disabling strict optional checking not supported''))"
  using
    unsupported_configuration
      [of "sample_env [foo_source] (sample_options (2, 7) True)" "[''foo.py'']" None
          "sample_world []" "[foo_source]" "sample_options (2, 7) True"
          "''3''" False False False False]
    unsupported_configuration
      [of "sample_env [foo_source] (sample_options (3, 7) False)" "[''foo.py'']" None
          "sample_world []" "[foo_source]" "sample_options (3, 7) False"
          "''3''" False False False False]
    sample_parsed [of "[foo_source]" "sample_options (2, 7) True" "[''foo.py'']" None "sample_world []"]
    sample_parsed [of "[foo_source]" "sample_options (3, 7) False" "[''foo.py'']" None "sample_world []"]
  by (simp add: sample_options_def)

section \<open>The list of mypy options\<close>

text \<open>
  C10, as stated: a list passed as \<open>mypy_options\<close> is changed by the call. The empty list
  is a list, and it is the same after the call: \<open>mypy_options or []\<close> makes a new list
  in its place.
\<close>

theorem mypy_options_empty_counterexample:
  "heap (sample_world []) ! 0 = []
   \<and> heap (snd (mypycify (sample_env [foo_source] (sample_options (3, 7) True)) [''foo.py'']
        (Some 0) ''3'' False False False False (sample_world []))) ! 0 = heap (sample_world []) ! 0
   \<and> heap (snd (mypycify (sample_env [foo_source] (sample_options (3, 7) True)) [''foo.py'']
        (Some 0) ''3'' False False False False (sample_world []))) ! 0 \<noteq>
      heap (sample_world []) ! 0 @ [''--'', ''foo.py'']"
  by (simp add: mypycify_heap sample_world_def sample_env_def)

text \<open>
  C10, amended. A list passed as \<open>mypy_options\<close> that is not empty is changed in place:
  after the call it holds what it held, then \<open>--\<close>, then the expanded paths. An empty list
  passed as \<open>mypy_options\<close> is still empty after the call.
\<close>

theorem mypy_options_mutated:
  assumes "a < length (heap w)"
  shows "heap (snd (mypycify env paths (Some a) opt multi skip verb strip w)) ! a =
           (if heap w ! a = [] then []
            else heap w ! a @ ''--'' # concat (map (glob env w) paths))"
  using assms by (simp add: mypycify_heap nth_append)

theorem mypy_options_mutated_witness:
  "(0::nat) < length (heap (sample_world [''--strict'']))
   \<and> heap (snd (mypycify (sample_env [foo_source] (sample_options (3, 7) True)) [''foo.py'']
        (Some 0) ''3'' False False False False (sample_world [''--strict'']))) ! 0 =
     [''--strict'', ''--'', ''foo.py'']"
  using
    mypy_options_mutated
      [of 0 "sample_world [''--strict'']" "sample_env [foo_source] (sample_options (3, 7) True)"
          "[''foo.py'']" "''3''" False False False False]
  by (simp add: sample_world_def sample_env_def)

end
